theory Spec2Isabelle
  imports Main "HOL-Library.AList"
begin

section \<open>Python values and the primitives the clients rely on\<close>

text \<open>
  A Python \<open>str\<close> is a sequence of Unicode code points, and \<open>len\<close> and slicing count
  code points, so a string is modelled as a list of code points. ASCII literals of the
  source are written \<open>ascii ''...''\<close>; the Japanese and emoji literals are given by
  their code points.
\<close>

type_synonym pystr = "nat list"

definition ascii :: "string \<Rightarrow> pystr" where
  "ascii s = map of_char s"

text \<open>
  What \<open>response.json()\<close> hands to the Notion client: \<open>None\<close>, booleans, integers,
  strings, lists and dicts with string keys. A dict is the list of its items in
  insertion order. Floats are left out: their rendering by \<open>str\<close> is floating-point
  formatting.
\<close>

datatype json =
    JNull
  | JBool bool
  | JInt int
  | JStr pystr
  | JArr "json list"
  | JObj "(pystr \<times> json) list"

text \<open>
  The exceptions that can leave the Notion client. \<open>TypeError\<close> and
  \<open>AttributeError\<close> are raised by the interpreter on ill-shaped data;
  \<open>NotionClientError\<close> carries its message (\<open>str(e)\<close>).
\<close>

datatype exn =
    TypeError
  | AttributeError
  | NotionClientError pystr

text \<open>Truth value of a Python object (\<open>if v:\<close>, \<open>v or d\<close>).\<close>

fun truthy :: "json \<Rightarrow> bool" where
  "truthy JNull = False"
| "truthy (JBool b) = b"
| "truthy (JInt i) = (i \<noteq> 0)"
| "truthy (JStr s) = (s \<noteq> [])"
| "truthy (JArr xs) = (xs \<noteq> [])"
| "truthy (JObj kvs) = (kvs \<noteq> [])"

text \<open>\<open>str(n)\<close> for an integer: decimal digits, with a minus sign when negative.\<close>

fun digits :: "nat \<Rightarrow> pystr" where
  "digits n = (if n < 10 then [48 + n] else digits (n div 10) @ [48 + n mod 10])"

declare digits.simps [simp del]

text \<open>
  \<open>str(v)\<close>, also what an f-string substitutes for \<open>{v}\<close>. The text Python prints for
  a list or a dict is not needed by any client function on well-shaped data; it is taken
  from the parameter \<open>repr\<close>.
\<close>

fun py_str :: "(json \<Rightarrow> pystr) \<Rightarrow> json \<Rightarrow> pystr" where
  "py_str repr JNull = ascii ''None''"
| "py_str repr (JBool b) = (if b then ascii ''True'' else ascii ''False'')"
| "py_str repr (JInt i) = (if i < 0 then 45 # digits (nat (- i)) else digits (nat i))"
| "py_str repr (JStr s) = s"
| "py_str repr (JArr xs) = repr (JArr xs)"
| "py_str repr (JObj kvs) = repr (JObj kvs)"

text \<open>
  \<open>d.get(key, default)\<close> on a dict, and on any value: only a dict has the method.
\<close>

definition dict_get :: "(pystr \<times> json) list \<Rightarrow> pystr \<Rightarrow> json \<Rightarrow> json" where
  "dict_get kvs k d = (case map_of kvs k of None \<Rightarrow> d | Some v \<Rightarrow> v)"

fun py_get :: "json \<Rightarrow> pystr \<Rightarrow> json \<Rightarrow> exn + json" where
  "py_get (JObj kvs) k d = Inr (dict_get kvs k d)"
| "py_get _ k d = Inl AttributeError"

text \<open>
  Iterating a value: a list gives its elements, a dict its keys, a string its
  characters; anything else is not iterable.
\<close>

fun py_iter :: "json \<Rightarrow> exn + json list" where
  "py_iter (JArr xs) = Inr xs"
| "py_iter (JObj kvs) = Inr (map (\<lambda>kv. JStr (fst kv)) kvs)"
| "py_iter (JStr s) = Inr (map (\<lambda>c. JStr [c]) s)"
| "py_iter _ = Inl TypeError"

text \<open>
  \<open>t.get(key, "")\<close> for every \<open>t\<close> of a sequence, in order: the generator a
  \<open>join\<close> consumes. The first element without the method raises.
\<close>

fun get_each :: "pystr \<Rightarrow> json list \<Rightarrow> exn + json list" where
  "get_each k [] = Inr []"
| "get_each k (t # ts) =
     (case py_get t k (JStr []) of
        Inl e \<Rightarrow> Inl e
      | Inr v \<Rightarrow> (case get_each k ts of Inl e \<Rightarrow> Inl e | Inr vs \<Rightarrow> Inr (v # vs)))"

text \<open>\<open>sep.join(parts)\<close> on strings.\<close>

fun join :: "pystr \<Rightarrow> pystr list \<Rightarrow> pystr" where
  "join sep [] = []"
| "join sep [p] = p"
| "join sep (p # q # ps) = p @ sep @ join sep (q # ps)"

fun as_strs :: "json list \<Rightarrow> pystr list option" where
  "as_strs [] = Some []"
| "as_strs (JStr s # vs) = (case as_strs vs of None \<Rightarrow> None | Some ss \<Rightarrow> Some (s # ss))"
| "as_strs (_ # vs) = None"

text \<open>\<open>sep.join(values)\<close>: every item has to be a \<open>str\<close>.\<close>

definition py_join :: "pystr \<Rightarrow> json list \<Rightarrow> exn + pystr" where
  "py_join sep vs = (case as_strs vs of None \<Rightarrow> Inl TypeError | Some ss \<Rightarrow> Inr (join sep ss))"

text \<open>
  \<open>sep.join(t.get(key, "") for t in v)\<close>, the shape of five branches of the
  extractor and of the text of a block: \<open>v\<close> is iterated, each element is asked for \<open>key\<close>, the values are joined.
\<close>

definition join_field :: "pystr \<Rightarrow> pystr \<Rightarrow> json \<Rightarrow> exn + pystr" where
  "join_field sep k v =
     (case py_iter v of
        Inl e \<Rightarrow> Inl e
      | Inr ts \<Rightarrow> (case get_each k ts of Inl e \<Rightarrow> Inl e | Inr vs \<Rightarrow> py_join sep vs))"

text \<open>A function that returns a \<open>str\<close>, seen as returning a value.\<close>

definition as_value :: "exn + pystr \<Rightarrow> exn + json" where
  "as_value r = (case r of Inl e \<Rightarrow> Inl e | Inr s \<Rightarrow> Inr (JStr s))"

text \<open>\<open>str.isspace\<close> on one code point, and \<open>str.strip()\<close>.\<close>

definition is_space :: "nat \<Rightarrow> bool" where
  "is_space c \<longleftrightarrow>
     (9 \<le> c \<and> c \<le> 13) \<or> (28 \<le> c \<and> c \<le> 32) \<or> c = 133 \<or> c = 160 \<or> c = 5760 \<or>
     (8192 \<le> c \<and> c \<le> 8202) \<or> c = 8232 \<or> c = 8233 \<or> c = 8239 \<or> c = 8287 \<or> c = 12288"

definition strip :: "pystr \<Rightarrow> pystr" where
  "strip s = rev (dropWhile is_space (rev (dropWhile is_space s)))"

section \<open>The Notion client\<close>

subsection \<open>Property extraction\<close>

text \<open>
  \<open>NotionClient._extract_property_value\<close>. The branches follow the source's
  \<open>if\<close>/\<open>elif\<close> chain on \<open>prop.get("type", "")\<close>; a \<open>prop\<close> that is not a dict
  has no \<open>get\<close>. The warning logged in the last branch has no effect on the result.
\<close>

fun extract_property_value :: "(json \<Rightarrow> pystr) \<Rightarrow> json \<Rightarrow> exn + json" where
  "extract_property_value repr (JObj prop) =
     (let prop_type = dict_get prop (ascii ''type'') (JStr []) in
      if prop_type = JStr (ascii ''title'') then
        as_value (join_field [] (ascii ''plain_text'') (dict_get prop (ascii ''title'') (JArr [])))
      else if prop_type = JStr (ascii ''rich_text'') then
        as_value (join_field [] (ascii ''plain_text'') (dict_get prop (ascii ''rich_text'') (JArr [])))
      else if prop_type = JStr (ascii ''number'') then
        Inr (JStr (py_str repr (dict_get prop (ascii ''number'') (JStr []))))
      else if prop_type = JStr (ascii ''select'') then
        (let select = dict_get prop (ascii ''select'') JNull in
         if truthy select then py_get select (ascii ''name'') (JStr []) else Inr (JStr []))
      else if prop_type = JStr (ascii ''multi_select'') then
        as_value (join_field (ascii '', '') (ascii ''name'')
                    (dict_get prop (ascii ''multi_select'') (JArr [])))
      else if prop_type = JStr (ascii ''date'') then
        (let date = dict_get prop (ascii ''date'') JNull in
         if truthy date then
           (case py_get date (ascii ''start'') (JStr []) of
              Inl e \<Rightarrow> Inl e
            | Inr start \<Rightarrow>
                (case py_get date (ascii ''end'') (JStr []) of
                   Inl e \<Rightarrow> Inl e
                 | Inr end' \<Rightarrow>
                     if truthy end'
                     then Inr (JStr (py_str repr start @ ascii '' - '' @ py_str repr end'))
                     else Inr start))
         else Inr (JStr []))
      else if prop_type = JStr (ascii ''checkbox'') then
        Inr (JStr (py_str repr (dict_get prop (ascii ''checkbox'') (JBool False))))
      else if prop_type = JStr (ascii ''url'') then
        (let v = dict_get prop (ascii ''url'') (JStr []) in
         Inr (if truthy v then v else JStr []))
      else if prop_type = JStr (ascii ''email'') then
        (let v = dict_get prop (ascii ''email'') (JStr []) in
         Inr (if truthy v then v else JStr []))
      else if prop_type = JStr (ascii ''phone_number'') then
        (let v = dict_get prop (ascii ''phone_number'') (JStr []) in
         Inr (if truthy v then v else JStr []))
      else if prop_type = JStr (ascii ''people'') then
        as_value (join_field (ascii '', '') (ascii ''name'')
                    (dict_get prop (ascii ''people'') (JArr [])))
      else if prop_type = JStr (ascii ''relation'') then
        as_value (join_field (ascii '', '') (ascii ''id'')
                    (dict_get prop (ascii ''relation'') (JArr [])))
      else Inr (JStr []))"
| "extract_property_value repr _ = Inl AttributeError"

declare extract_property_value.simps(1) [simp del]

text \<open>The raw values a number property carries on the remote store: null or a number.\<close>

fun is_number_or_null :: "json \<Rightarrow> bool" where
  "is_number_or_null JNull = True"
| "is_number_or_null (JInt i) = True"
| "is_number_or_null _ = False"

subsection \<open>Configuration, the remote services and the log of calls\<close>

text \<open>
  \<open>NotionConfig\<close> and \<open>SlackConfig\<close> of \<open>config.py\<close>. The credentials and the
  Gemini settings only configure the remote services and are left out.
\<close>

record NotionConfig =
  database_id :: pystr
  status_property :: pystr
  content_properties :: "pystr list"

record SlackConfig =
  webhook_url :: pystr
  channel :: "pystr option"

record AppConfig =
  notion :: NotionConfig
  slack :: SlackConfig

text \<open>
  Every call that leaves the process is recorded, in order: a Notion request (method,
  endpoint, JSON body), a \<open>generate_content\<close> call (the prompt) and a post to the Slack
  webhook (URL, payload). Logging is not modelled.
\<close>

datatype event =
    NotionRequest pystr pystr "json option"
  | GeminiGenerate pystr
  | SlackPost pystr json

text \<open>
  What the \<open>requests\<close> library does with a call: it hands back a successful
  response (its decoded body), \<open>raise_for_status\<close> raises \<open>HTTPError\<close>, or the call
  raises another \<open>RequestException\<close>; the exceptions carry their text. What
  \<open>generate_content\<close> does: a response with its \<open>text\<close> (possibly empty), or an
  exception with its text.
\<close>

datatype 'a reply = Replied 'a | HTTPError pystr | RequestException pystr

datatype generation = Generated pystr | GenerationFailed pystr

text \<open>
  The world outside: each service answers a call as a function of the calls made so far
  and of the call itself. \<open>py_repr\<close> is the interpreter's rendering of lists and dicts.
\<close>

record world =
  notion_api :: "event list \<Rightarrow> pystr \<Rightarrow> pystr \<Rightarrow> json option \<Rightarrow> json reply"
  gemini_api :: "event list \<Rightarrow> pystr \<Rightarrow> generation"
  slack_api :: "event list \<Rightarrow> pystr \<Rightarrow> json \<Rightarrow> pystr reply"
  py_repr :: "json \<Rightarrow> pystr"

text \<open>A transport failure of a call: either exception of the library.\<close>

fun transport_failed :: "'a reply \<Rightarrow> bool" where
  "transport_failed (Replied body) = False"
| "transport_failed (HTTPError e) = True"
| "transport_failed (RequestException e) = True"

subsection \<open>Requests to the Notion API\<close>

text \<open>
  \<open>NotionClient._make_request\<close>: \<open>Inl m\<close> is \<open>raise NotionClientError(m)\<close>, the only
  exception it raises. The messages are \<open>"Notion API\<dots>: {e}"\<close> of the source.
\<close>

definition notion_api_error :: pystr where
  "notion_api_error = ascii ''Notion API'' @ [12456, 12521, 12540, 58, 32]"

definition notion_connection_error :: pystr where
  "notion_connection_error = ascii ''Notion API'' @ [25509, 32154, 12456, 12521, 12540, 58, 32]"

definition make_request ::
  "world \<Rightarrow> pystr \<Rightarrow> pystr \<Rightarrow> json option \<Rightarrow> event list \<Rightarrow> (pystr + json) \<times> event list" where
  "make_request w method endpoint json_data tr =
     (case notion_api w tr method endpoint json_data of
        Replied body \<Rightarrow> Inr body
      | HTTPError e \<Rightarrow> Inl (notion_api_error @ e)
      | RequestException e \<Rightarrow> Inl (notion_connection_error @ e),
      tr @ [NotionRequest method endpoint json_data])"

subsection \<open>The body of a page\<close>

text \<open>
  \<open>block.get(block_type, {})\<close> with a key that is any value: a list or dict key is
  unhashable, and a key that is not a string is never found in a dict of string keys.
\<close>

fun dict_get_key :: "(pystr \<times> json) list \<Rightarrow> json \<Rightarrow> json \<Rightarrow> exn + json" where
  "dict_get_key kvs (JStr k) d = Inr (dict_get kvs k d)"
| "dict_get_key kvs (JArr xs) d = Inl TypeError"
| "dict_get_key kvs (JObj xs) d = Inl TypeError"
| "dict_get_key kvs _ d = Inr d"

fun starts_with :: "pystr \<Rightarrow> pystr \<Rightarrow> bool" where
  "starts_with s [] = True"
| "starts_with [] (c # cs) = False"
| "starts_with (x # xs) (c # cs) = (x = c \<and> starts_with xs cs)"

fun contains_str :: "pystr \<Rightarrow> pystr \<Rightarrow> bool" where
  "contains_str [] sub = (sub = [])"
| "contains_str (x # xs) sub = (starts_with (x # xs) sub \<or> contains_str xs sub)"

text \<open>
  \<open>key in v\<close> for a string \<open>key\<close>: a key of a dict, an element of a list, a
  substring of a string; other values are not containers.
\<close>

fun py_contains :: "pystr \<Rightarrow> json \<Rightarrow> exn + bool" where
  "py_contains k (JObj kvs) = Inr (k \<in> fst ` set kvs)"
| "py_contains k (JArr xs) = Inr (JStr k \<in> set xs)"
| "py_contains k (JStr s) = Inr (contains_str s k)"
| "py_contains k _ = Inl TypeError"

text \<open>
  One round of the loop over the blocks in \<open>_get_page_content\<close>: the text of a block
  that carries \<open>rich_text\<close>, \<open>None\<close> for a block that adds nothing.
\<close>

fun block_text :: "json \<Rightarrow> exn + pystr option" where
  "block_text (JObj block) =
     (case dict_get_key block (dict_get block (ascii ''type'') (JStr [])) (JObj []) of
        Inl e \<Rightarrow> Inl e
      | Inr block_data \<Rightarrow>
          (case py_contains (ascii ''rich_text'') block_data of
             Inl e \<Rightarrow> Inl e
           | Inr False \<Rightarrow> Inr None
           | Inr True \<Rightarrow>
               (case py_get block_data (ascii ''rich_text'') (JArr []) of
                  Inl e \<Rightarrow> Inl e
                | Inr v \<Rightarrow>
                    (case join_field [] (ascii ''plain_text'') v of
                       Inl e \<Rightarrow> Inl e
                     | Inr text \<Rightarrow> Inr (if text \<noteq> [] then Some text else None)))))"
| "block_text _ = Inl AttributeError"

fun block_texts :: "json list \<Rightarrow> exn + pystr list" where
  "block_texts [] = Inr []"
| "block_texts (block # blocks) =
     (case block_text block of
        Inl e \<Rightarrow> Inl e
      | Inr t \<Rightarrow>
          (case block_texts blocks of
             Inl e \<Rightarrow> Inl e
           | Inr content_parts \<Rightarrow>
               Inr (case t of None \<Rightarrow> content_parts | Some text \<Rightarrow> text # content_parts)))"

fun page_text :: "json \<Rightarrow> exn + pystr" where
  "page_text (JObj response) =
     (case py_iter (dict_get response (ascii ''results'') (JArr [])) of
        Inl e \<Rightarrow> Inl e
      | Inr blocks \<Rightarrow>
          (case block_texts blocks of
             Inl e \<Rightarrow> Inl e
           | Inr content_parts \<Rightarrow> Inr (join [10] content_parts)))"
| "page_text _ = Inl AttributeError"

text \<open>
  \<open>NotionClient._get_page_content\<close>: a \<open>NotionClientError\<close> of the request gives
  the empty text; an error raised while reading the response is not caught.
\<close>

definition get_page_content :: "world \<Rightarrow> json \<Rightarrow> event list \<Rightarrow> (exn + pystr) \<times> event list" where
  "get_page_content w page_id tr =
     (case make_request w (ascii ''GET'')
             (ascii ''/blocks/'' @ py_str (py_repr w) page_id @ ascii ''/children?page_size=100'')
             None tr of
        (Inl m, tr') \<Rightarrow> (Inr [], tr')
      | (Inr response, tr') \<Rightarrow> (page_text response, tr'))"

subsection \<open>Marking a page as processed\<close>

text \<open>\<open>NotionClient.mark_as_processed\<close>: a failed request gives \<open>False\<close>.\<close>

definition update_data :: "NotionConfig \<Rightarrow> json" where
  "update_data cfg =
     JObj [(ascii ''properties'',
              JObj [(status_property cfg, JObj [(ascii ''checkbox'', JBool True)])])]"

definition mark_as_processed ::
  "world \<Rightarrow> NotionConfig \<Rightarrow> json \<Rightarrow> event list \<Rightarrow> bool \<times> event list" where
  "mark_as_processed w cfg page_id tr =
     (case make_request w (ascii ''PATCH'') (ascii ''/pages/'' @ py_str (py_repr w) page_id)
             (Some (update_data cfg)) tr of
        (Inl m, tr') \<Rightarrow> (False, tr')
      | (Inr response, tr') \<Rightarrow> (True, tr'))"

section \<open>The Gemini client\<close>

text \<open>
  \<open>GeminiClient.process\<close>: \<open>Inl m\<close> is \<open>raise GeminiClientError(m)\<close>. Blank content is
  answered with the empty string before any call. Whatever \<open>generate_content\<close> or
  \<open>response.text\<close> raises is wrapped; an empty \<open>response.text\<close> raises directly.
\<close>

definition gemini_no_response :: pystr where
  "gemini_no_response =
     ascii ''Gemini API'' @ [12363, 12425, 26377, 21177, 12394, 24540, 31572, 12434, 21462,
       24471, 12391, 12365, 12414, 12379, 12435, 12391, 12375, 12383]"

definition gemini_call_failed :: pystr where
  "gemini_call_failed =
     ascii ''Gemini API'' @ [21628, 12403, 20986, 12375, 12395, 22833, 25943, 58, 32]"

definition process :: "world \<Rightarrow> pystr \<Rightarrow> event list \<Rightarrow> (pystr + pystr) \<times> event list" where
  "process w content tr =
     (if content = [] \<or> strip content = [] then (Inr [], tr)
      else (case gemini_api w tr content of
              Generated text \<Rightarrow> if text \<noteq> [] then Inr text else Inl gemini_no_response
            | GenerationFailed e \<Rightarrow> Inl (gemini_call_failed @ e),
            tr @ [GeminiGenerate content]))"

section \<open>The Slack client\<close>

text \<open>
  \<open>SlackClient.send_message\<close>: \<open>Inl m\<close> is \<open>raise SlackClientError(m)\<close>. The payload
  gets its keys in the order of the source; the result is whether the webhook answered
  \<open>ok\<close>.
\<close>

definition slack_send_error :: pystr where
  "slack_send_error = ascii ''Slack'' @ [36865, 20449, 12456, 12521, 12540, 58, 32]"

definition slack_connection_error :: pystr where
  "slack_connection_error = ascii ''Slack'' @ [25509, 32154, 12456, 12521, 12540, 58, 32]"

definition send_message ::
  "world \<Rightarrow> SlackConfig \<Rightarrow> pystr \<Rightarrow> json list option \<Rightarrow> json list option \<Rightarrow> event list
     \<Rightarrow> (pystr + bool) \<times> event list" where
  "send_message w cfg text blocks attachments tr =
     (let payload =
            JObj ([(ascii ''text'', JStr text)]
                  @ (case blocks of
                       None \<Rightarrow> []
                     | Some bs \<Rightarrow> if bs \<noteq> [] then [(ascii ''blocks'', JArr bs)] else [])
                  @ (case attachments of
                       None \<Rightarrow> []
                     | Some ats \<Rightarrow> if ats \<noteq> [] then [(ascii ''attachments'', JArr ats)] else [])
                  @ (case channel cfg of
                       None \<Rightarrow> []
                     | Some c \<Rightarrow> if c \<noteq> [] then [(ascii ''channel'', JStr c)] else []))
      in (case slack_api w tr (webhook_url cfg) payload of
            Replied body \<Rightarrow> Inr (body = ascii ''ok'')
          | HTTPError e \<Rightarrow> Inl (slack_send_error @ e)
          | RequestException e \<Rightarrow> Inl (slack_connection_error @ e),
          tr @ [SlackPost (webhook_url cfg) payload]))"

text \<open>
  The three values \<open>send_processed_result\<close> computes: the shortened original content,
  the blocks and the fallback text. The emoji and Japanese labels are given by their code
  points.
\<close>

definition truncated_original :: "pystr \<Rightarrow> pystr" where
  "truncated_original original_content =
     (if length original_content > 300 then take 300 original_content @ ascii ''...''
      else original_content)"

definition plain_text :: "pystr \<Rightarrow> json" where
  "plain_text s =
     JObj [(ascii ''type'', JStr (ascii ''plain_text'')), (ascii ''text'', JStr s),
           (ascii ''emoji'', JBool True)]"

definition mrkdwn :: "pystr \<Rightarrow> json" where
  "mrkdwn s = JObj [(ascii ''type'', JStr (ascii ''mrkdwn'')), (ascii ''text'', JStr s)]"

definition link_button :: "pystr \<Rightarrow> json \<Rightarrow> json" where
  "link_button label notion_url =
     JObj [(ascii ''type'', JStr (ascii ''actions'')),
           (ascii ''elements'',
              JArr [JObj [(ascii ''type'', JStr (ascii ''button'')),
                          (ascii ''text'', plain_text label),
                          (ascii ''url'', notion_url)]])]"

definition result_blocks :: "(json \<Rightarrow> pystr) \<Rightarrow> json \<Rightarrow> pystr \<Rightarrow> json \<Rightarrow> json list" where
  "result_blocks repr title processed_result notion_url =
     [JObj [(ascii ''type'', JStr (ascii ''header'')),
            (ascii ''text'', plain_text ([128221, 32] @ py_str repr title))],
      JObj [(ascii ''type'', JStr (ascii ''divider''))],
      JObj [(ascii ''type'', JStr (ascii ''section'')),
            (ascii ''text'', mrkdwn (take 3000 processed_result))]]
     @ (if truthy notion_url
        then [link_button ([128196, 32] @ ascii ''Notion'' @ [12391, 38283, 12367]) notion_url]
        else [])
     @ [JObj [(ascii ''type'', JStr (ascii ''context'')),
              (ascii ''elements'',
                 JArr [mrkdwn ([129302, 32] @ ascii ''_Gemini API''
                         @ [12391, 33258, 21205, 20966, 29702, 12373, 12428, 12414, 12375, 12383, 95])])]]"

definition fallback_text :: "(json \<Rightarrow> pystr) \<Rightarrow> json \<Rightarrow> pystr \<Rightarrow> pystr" where
  "fallback_text repr title processed_result =
     [128221, 32] @ py_str repr title @ [10, 10] @ take 500 processed_result @ ascii ''...''"

text \<open>
  \<open>SlackClient.send_processed_result\<close>. The source binds \<open>truncated_original\<close> and
  then builds the blocks and the fallback text without it.
\<close>

definition send_processed_result ::
  "world \<Rightarrow> SlackConfig \<Rightarrow> json \<Rightarrow> pystr \<Rightarrow> pystr \<Rightarrow> json \<Rightarrow> event list
     \<Rightarrow> (pystr + bool) \<times> event list" where
  "send_processed_result w cfg title original_content processed_result notion_url tr =
     (let truncated = truncated_original original_content;
          blocks = result_blocks (py_repr w) title processed_result notion_url
      in send_message w cfg (fallback_text (py_repr w) title processed_result) (Some blocks) None tr)"

text \<open>\<open>SlackClient.send_error_notification\<close>.\<close>

definition processing_error :: pystr where
  "processing_error = [9888, 65039, 32, 20966, 29702, 12456, 12521, 12540]"

definition error_blocks :: "(json \<Rightarrow> pystr) \<Rightarrow> json \<Rightarrow> pystr \<Rightarrow> json \<Rightarrow> json list" where
  "error_blocks repr title error_message notion_url =
     [JObj [(ascii ''type'', JStr (ascii ''header'')),
            (ascii ''text'', plain_text processing_error)],
      JObj [(ascii ''type'', JStr (ascii ''section'')),
            (ascii ''text'',
               mrkdwn ([42, 23550, 35937, 58, 42, 32] @ py_str repr title
                       @ [10, 42, 12456, 12521, 12540, 58, 42, 32] @ error_message))]]
     @ (if truthy notion_url
        then [link_button ([128196, 32] @ ascii ''Notion'' @ [12391, 30906, 35469]) notion_url]
        else [])"

definition send_error_notification ::
  "world \<Rightarrow> SlackConfig \<Rightarrow> json \<Rightarrow> pystr \<Rightarrow> json \<Rightarrow> event list
     \<Rightarrow> (pystr + bool) \<times> event list" where
  "send_error_notification w cfg title error_message notion_url tr =
     send_message w cfg
       (processing_error @ ascii '': '' @ py_str (py_repr w) title @ ascii '' - '' @ error_message)
       (Some (error_blocks (py_repr w) title error_message notion_url)) None tr"

section \<open>The Notion client: the unprocessed items\<close>

subsection \<open>Fetching the unprocessed items\<close>

text \<open>The literals \<open>"(\<dots>)"\<close> (the default title) and the name of the body property.\<close>

definition untitled :: pystr where
  "untitled = [40, 28961, 38988, 41]"

definition body_property :: pystr where
  "body_property = [26412, 25991]"

text \<open>
  The loop that looks for the title: the first property of type \<open>title\<close>, in the order
  of the dict, is extracted; \<open>""\<close> when there is none.
\<close>

fun find_title :: "(json \<Rightarrow> pystr) \<Rightarrow> (pystr \<times> json) list \<Rightarrow> exn + json" where
  "find_title repr [] = Inr (JStr [])"
| "find_title repr ((prop_name, prop_value) # properties) =
     (case py_get prop_value (ascii ''type'') JNull of
        Inl e \<Rightarrow> Inl e
      | Inr ty \<Rightarrow>
          if ty = JStr (ascii ''title'') then extract_property_value repr prop_value
          else find_title repr properties)"

text \<open>
  The loop over the configured property names: a name that is a key of \<open>properties\<close>
  is extracted and stored (\<open>content[prop_name] = value\<close>); a name that is not is skipped.
\<close>

fun collect_content ::
  "(json \<Rightarrow> pystr) \<Rightarrow> (pystr \<times> json) list \<Rightarrow> pystr list \<Rightarrow> (pystr \<times> json) list
     \<Rightarrow> exn + (pystr \<times> json) list" where
  "collect_content repr properties [] content = Inr content"
| "collect_content repr properties (prop_name # prop_names) content =
     (case map_of properties prop_name of
        None \<Rightarrow> collect_content repr properties prop_names content
      | Some prop \<Rightarrow>
          (case extract_property_value repr prop of
             Inl e \<Rightarrow> Inl e
           | Inr v \<Rightarrow>
               collect_content repr properties prop_names (AList.update prop_name v content)))"

text \<open>
  The fallback for the body property: when it is configured and \<open>content.get\<close> of it is
  empty or missing, the page's blocks are read, and a non-empty text is stored under it.
\<close>

definition with_page_content ::
  "world \<Rightarrow> NotionConfig \<Rightarrow> json \<Rightarrow> (pystr \<times> json) list \<Rightarrow> event list
     \<Rightarrow> (exn + (pystr \<times> json) list) \<times> event list" where
  "with_page_content w cfg page_id content tr =
     (if body_property \<in> set (content_properties cfg)
         \<and> \<not> truthy (dict_get content body_property JNull)
      then (case get_page_content w page_id tr of
              (Inl e, tr') \<Rightarrow> (Inl e, tr')
            | (Inr page_content, tr') \<Rightarrow>
                (Inr (if page_content \<noteq> []
                      then AList.update body_property (JStr page_content) content
                      else content), tr'))
      else (Inr content, tr))"

text \<open>The dataclass \<open>NotionItem\<close>; its fields hold whatever the response gave.\<close>

record NotionItem =
  page_id :: json
  title :: json
  content :: "(pystr \<times> json) list"
  url :: json

text \<open>
  The body of the loop over the results in \<open>get_unprocessed_items\<close>: one record of the
  response becomes one item. \<open>result.get\<close> and \<open>properties.items()\<close> need a dict.
  Below, \<open>t\<close> is the local \<open>title\<close> and \<open>c\<close>, \<open>c'\<close> the local \<open>content\<close> before and
  after the fallback.
\<close>

fun build_item ::
  "world \<Rightarrow> NotionConfig \<Rightarrow> json \<Rightarrow> event list \<Rightarrow> (exn + NotionItem) \<times> event list" where
  "build_item w cfg (JObj result) tr =
     (case dict_get result (ascii ''properties'') (JObj []) of
        JObj properties \<Rightarrow>
          (case find_title (py_repr w) properties of
             Inl e \<Rightarrow> (Inl e, tr)
           | Inr t \<Rightarrow>
               (case collect_content (py_repr w) properties (content_properties cfg) [] of
                  Inl e \<Rightarrow> (Inl e, tr)
                | Inr c \<Rightarrow>
                    (case with_page_content w cfg (dict_get result (ascii ''id'') (JStr [])) c tr of
                       (Inl e, tr') \<Rightarrow> (Inl e, tr')
                     | (Inr c', tr') \<Rightarrow>
                         (Inr \<lparr>page_id = dict_get result (ascii ''id'') (JStr []),
                               title = (if truthy t then t else JStr untitled),
                               content = c',
                               url = dict_get result (ascii ''url'') (JStr [])\<rparr>, tr'))))
      | _ \<Rightarrow> (Inl AttributeError, tr))"
| "build_item w cfg _ tr = (Inl AttributeError, tr)"

fun build_items ::
  "world \<Rightarrow> NotionConfig \<Rightarrow> json list \<Rightarrow> event list \<Rightarrow> (exn + NotionItem list) \<times> event list" where
  "build_items w cfg [] tr = (Inr [], tr)"
| "build_items w cfg (result # results) tr =
     (case build_item w cfg result tr of
        (Inl e, tr') \<Rightarrow> (Inl e, tr')
      | (Inr it, tr') \<Rightarrow>
          (case build_items w cfg results tr' of
             (Inl e, tr'') \<Rightarrow> (Inl e, tr'')
           | (Inr items, tr'') \<Rightarrow> (Inr (it # items), tr'')))"

text \<open>The query of \<open>get_unprocessed_items\<close>: the status checkbox equals false, one page of 100.\<close>

definition query_endpoint :: "NotionConfig \<Rightarrow> pystr" where
  "query_endpoint cfg = ascii ''/databases/'' @ database_id cfg @ ascii ''/query''"

definition query_data :: "NotionConfig \<Rightarrow> json" where
  "query_data cfg =
     JObj [(ascii ''filter'',
              JObj [(ascii ''property'', JStr (status_property cfg)),
                    (ascii ''checkbox'', JObj [(ascii ''equals'', JBool False)])]),
           (ascii ''page_size'', JInt 100)]"

text \<open>\<open>response.get("results", [])\<close> and the values it is iterated into.\<close>

fun response_results :: "json \<Rightarrow> exn + json list" where
  "response_results (JObj response) = py_iter (dict_get response (ascii ''results'') (JArr []))"
| "response_results _ = Inl AttributeError"

definition get_unprocessed_items ::
  "world \<Rightarrow> NotionConfig \<Rightarrow> event list \<Rightarrow> (exn + NotionItem list) \<times> event list" where
  "get_unprocessed_items w cfg tr =
     (case make_request w (ascii ''POST'') (query_endpoint cfg) (Some (query_data cfg)) tr of
        (Inl m, tr') \<Rightarrow> (Inl (NotionClientError m), tr')
      | (Inr response, tr') \<Rightarrow>
          (case response_results response of
             Inl e \<Rightarrow> (Inl e, tr')
           | Inr results \<Rightarrow> build_items w cfg results tr'))"

section \<open>The pipeline\<close>

text \<open>\<open>NotionGeminiSlackPipeline._build_gemini_input\<close> and the text shown to Slack as original content.\<close>

definition build_gemini_input :: "(json \<Rightarrow> pystr) \<Rightarrow> NotionItem \<Rightarrow> pystr" where
  "build_gemini_input repr it =
     join [10]
       ((ascii ''# '' @ py_str repr (title it))
        # map (\<lambda>(prop_name, prop_value).
                 [10] @ ascii ''## '' @ prop_name @ [10] @ py_str repr prop_value)
            (filter (\<lambda>(prop_name, prop_value). truthy prop_value) (content it)))"

definition original_content :: "(json \<Rightarrow> pystr) \<Rightarrow> NotionItem \<Rightarrow> pystr" where
  "original_content repr it =
     join [10]
       (map (\<lambda>(k, v). k @ ascii '': '' @ py_str repr v)
          (filter (\<lambda>(k, v). truthy v) (content it)))"

record ProcessingResult =
  item :: NotionItem
  success :: bool
  gemini_result :: pystr
  error_message :: pystr

definition failure :: "NotionItem \<Rightarrow> pystr \<Rightarrow> ProcessingResult" where
  "failure it msg = \<lparr>item = it, success = False, gemini_result = [], error_message = msg\<rparr>"

text \<open>The three messages of \<open>process_single_item\<close>.\<close>

definition empty_content :: pystr where
  "empty_content = [12467, 12531, 12486, 12531, 12484, 12364, 31354, 12391, 12377]"

definition no_valid_response :: pystr where
  "no_valid_response =
     ascii ''Gemini'' @ [12363, 12425, 26377, 21177, 12394, 24540, 31572, 12364, 12354, 12426,
       12414, 12379, 12435, 12391, 12375, 12383]"

definition unexpected_error :: pystr where
  "unexpected_error = [20104, 26399, 12375, 12394, 12356, 12456, 12521, 12540, 58, 32]"

text \<open>
  \<open>NotionGeminiSlackPipeline.process_single_item\<close>. Inside the \<open>try\<close> only two calls
  raise: \<open>gemini.process\<close>, handled by \<open>except GeminiClientError\<close>, and
  \<open>slack.send_processed_result\<close>, handled by \<open>except Exception\<close>.
\<close>

definition process_single_item ::
  "world \<Rightarrow> AppConfig \<Rightarrow> NotionItem \<Rightarrow> event list \<Rightarrow> ProcessingResult \<times> event list" where
  "process_single_item w cfg it tr =
     (let gemini_input = build_gemini_input (py_repr w) it in
      if strip gemini_input = [] \<or> strip gemini_input = ascii ''# '' @ py_str (py_repr w) (title it)
      then (failure it empty_content, tr)
      else
        (case process w gemini_input tr of
           (Inl error_msg, tr1) \<Rightarrow> (failure it error_msg, tr1)
         | (Inr result_text, tr1) \<Rightarrow>
             if result_text = [] then (failure it no_valid_response, tr1)
             else
               (case send_processed_result w (slack cfg) (title it)
                       (original_content (py_repr w) it) result_text (url it) tr1 of
                  (Inl e, tr2) \<Rightarrow> (failure it (unexpected_error @ e), tr2)
                | (Inr slack_success, tr2) \<Rightarrow>
                    (case mark_as_processed w (notion cfg) (page_id it) tr2 of
                       (notion_update_success, tr3) \<Rightarrow>
                         (\<lparr>item = it, success = True, gemini_result = result_text,
                           error_message = []\<rparr>, tr3)))))"

text \<open>
  The loop of \<open>run\<close>: every item is processed and its result appended; after a failure
  with a message the error notification is sent, and a \<open>SlackClientError\<close> of it is
  swallowed.
\<close>

fun run_items ::
  "world \<Rightarrow> AppConfig \<Rightarrow> NotionItem list \<Rightarrow> event list \<Rightarrow> ProcessingResult list \<times> event list" where
  "run_items w cfg [] tr = ([], tr)"
| "run_items w cfg (it # items) tr =
     (case process_single_item w cfg it tr of
        (result, tr1) \<Rightarrow>
          (case run_items w cfg items
                  (if \<not> success result \<and> error_message result \<noteq> []
                   then snd (send_error_notification w (slack cfg) (title it)
                               (error_message result) (url it) tr1)
                   else tr1) of
             (results, tr2) \<Rightarrow> (result # results, tr2)))"

text \<open>
  \<open>NotionGeminiSlackPipeline.run\<close>: \<open>Inl e\<close> is an exception that leaves \<open>run\<close>; only
  \<open>NotionClientError\<close> is caught around the fetch.
\<close>

definition run ::
  "world \<Rightarrow> AppConfig \<Rightarrow> bool \<Rightarrow> event list \<Rightarrow> (exn + ProcessingResult list) \<times> event list" where
  "run w cfg dry_run tr =
     (case get_unprocessed_items w (notion cfg) tr of
        (Inl (NotionClientError m), tr0) \<Rightarrow> (Inr [], tr0)
      | (Inl e, tr0) \<Rightarrow> (Inl e, tr0)
      | (Inr items, tr0) \<Rightarrow>
          if items = [] then (Inr [], tr0)
          else if dry_run then (Inr [], tr0)
          else (case run_items w cfg items tr0 of (results, tr1) \<Rightarrow> (Inr results, tr1)))"

section \<open>Sample services for the concrete evaluations\<close>

text \<open>
  A world with fixed answers: the Notion query (the only \<open>POST\<close>) gets \<open>query_reply\<close>
  and every other Notion request \<open>other_reply\<close>; generation fails on the prompts in
  \<open>bad_prompts\<close> and gives \<open>generated\<close> otherwise; the webhook gives \<open>slack_reply\<close>.
\<close>

definition sample_repr :: "json \<Rightarrow> pystr" where
  "sample_repr v = []"

definition sample_world ::
  "json reply \<Rightarrow> json reply \<Rightarrow> pystr list \<Rightarrow> generation \<Rightarrow> pystr reply \<Rightarrow> world" where
  "sample_world query_reply other_reply bad_prompts generated slack_reply =
     \<lparr>notion_api = (\<lambda>tr method endpoint body.
                       if method = ascii ''POST'' then query_reply else other_reply),
      gemini_api = (\<lambda>tr prompt.
                       if prompt \<in> set bad_prompts then GenerationFailed (ascii ''quota'')
                       else generated),
      slack_api = (\<lambda>tr hook payload. slack_reply),
      py_repr = sample_repr\<rparr>"

definition sample_config :: "pystr list \<Rightarrow> AppConfig" where
  "sample_config props =
     \<lparr>notion = \<lparr>database_id = ascii ''db'', status_property = ascii ''done'',
                 content_properties = props\<rparr>,
      slack = \<lparr>webhook_url = ascii ''https://hooks.example/x'', channel = None\<rparr>\<rparr>"

text \<open>
  Records as the query returns them, with a title property \<open>Name\<close> and a rich-text
  property \<open>Body\<close>, and the items they become when \<open>Body\<close> is the configured content.
\<close>

definition sample_record :: "pystr \<Rightarrow> pystr \<Rightarrow> pystr \<Rightarrow> json" where
  "sample_record pid name body =
     JObj [(ascii ''id'', JStr pid),
           (ascii ''url'', JStr (ascii ''https://notion.example/'' @ pid)),
           (ascii ''properties'',
              JObj [(ascii ''Name'',
                       JObj [(ascii ''type'', JStr (ascii ''title'')),
                             (ascii ''title'', JArr [JObj [(ascii ''plain_text'', JStr name)]])]),
                    (ascii ''Body'',
                       JObj [(ascii ''type'', JStr (ascii ''rich_text'')),
                             (ascii ''rich_text'', JArr [JObj [(ascii ''plain_text'', JStr body)]])])])]"

definition sample_item :: "pystr \<Rightarrow> pystr \<Rightarrow> pystr \<Rightarrow> NotionItem" where
  "sample_item pid name body =
     \<lparr>page_id = JStr pid, title = JStr name, content = [(ascii ''Body'', JStr body)],
      url = JStr (ascii ''https://notion.example/'' @ pid)\<rparr>"

definition three_records :: json where
  "three_records =
     JObj [(ascii ''results'',
              JArr [sample_record (ascii ''p1'') (ascii ''A'') (ascii ''alpha''),
                    sample_record (ascii ''p2'') (ascii ''B'') (ascii ''beta''),
                    sample_record (ascii ''p3'') (ascii ''C'') (ascii ''gamma'')])]"

text \<open>A world whose query returns three records and whose generation fails on the second.\<close>

definition flaky_world :: world where
  "flaky_world =
     sample_world (Replied three_records) (Replied (JObj []))
       [build_gemini_input sample_repr (sample_item (ascii ''p2'') (ascii ''B'') (ascii ''beta''))]
       (Generated (ascii ''summary'')) (Replied (ascii ''ok''))"

text \<open>A world in which every service answers well and the query finds no record.\<close>

definition quiet_world :: world where
  "quiet_world =
     sample_world (Replied (JObj [])) (Replied (JObj [])) []
       (Generated (ascii ''summary'')) (Replied (ascii ''ok''))"

text \<open>
  A world whose webhook answers every post with a server error, and one whose webhook
  answers without \<open>ok\<close> and whose Notion updates fail.
\<close>

definition slack_down_world :: world where
  "slack_down_world =
     sample_world (Replied (JObj [])) (Replied (JObj [])) []
       (Generated (ascii ''summary'')) (HTTPError (ascii ''500 Server Error''))"

definition deaf_world :: world where
  "deaf_world =
     sample_world (Replied (JObj [])) (HTTPError (ascii ''404 Not Found'')) []
       (Generated (ascii ''summary'')) (Replied (ascii ''invalid_payload''))"

text \<open>An item with a blank body whose title ends in a space.\<close>

definition trailing_space_item :: NotionItem where
  "trailing_space_item =
     \<lparr>page_id = JStr (ascii ''p1''), title = JStr (ascii ''Weekly sync ''),
      content = [(body_property, JStr [])], url = JStr []\<rparr>"

text \<open>A world whose query returns one record, with the properties \<open>Name\<close> and \<open>Body\<close>.\<close>

definition one_record_world :: world where
  "one_record_world =
     sample_world
       (Replied (JObj [(ascii ''results'',
                          JArr [sample_record (ascii ''p1'') (ascii ''A'') (ascii ''alpha'')])]))
       (Replied (JObj [])) [] (Generated (ascii ''summary'')) (Replied (ascii ''ok''))"

text \<open>
  A record whose people property \<open>Owner\<close> holds a user with a null name, and a world
  whose query returns a well-formed record followed by it; every call is answered.
\<close>

definition null_name_record :: json where
  "null_name_record =
     JObj [(ascii ''id'', JStr (ascii ''p2'')),
           (ascii ''url'', JStr (ascii ''https://notion.example/p2'')),
           (ascii ''properties'',
              JObj [(ascii ''Name'',
                       JObj [(ascii ''type'', JStr (ascii ''title'')),
                             (ascii ''title'', JArr [JObj [(ascii ''plain_text'', JStr (ascii ''B''))]])]),
                    (ascii ''Owner'',
                       JObj [(ascii ''type'', JStr (ascii ''people'')),
                             (ascii ''people'',
                                JArr [JObj [(ascii ''object'', JStr (ascii ''user'')),
                                            (ascii ''id'', JStr (ascii ''u1'')),
                                            (ascii ''name'', JNull)]])])])]"

definition null_name_world :: world where
  "null_name_world =
     sample_world
       (Replied (JObj [(ascii ''results'',
                          JArr [sample_record (ascii ''p1'') (ascii ''A'') (ascii ''alpha''),
                                null_name_record])]))
       (Replied (JObj [])) [] (Generated (ascii ''summary'')) (Replied (ascii ''ok''))"

section \<open>Properties of the property extraction\<close>

text \<open>The definitions unfolded when a client or the pipeline is run on a concrete input.\<close>

lemmas client_defs =
  ascii_def dict_get_def join_field_def py_join_def as_value_def extract_property_value.simps(1)
  make_request_def get_page_content_def mark_as_processed_def update_data_def
  with_page_content_def query_endpoint_def query_data_def get_unprocessed_items_def
  body_property_def untitled_def process_def strip_def is_space_def
  send_message_def send_processed_result_def send_error_notification_def

lemmas pipeline_defs =
  build_gemini_input_def original_content_def process_single_item_def failure_def run_def Let_def

lemmas sample_defs =
  sample_world_def sample_config_def sample_repr_def sample_record_def sample_item_def
  three_records_def flaky_world_def quiet_world_def

lemma ascii_Cons: "ascii (c # cs) = of_char c # ascii cs"
  by (simp add: ascii_def)

lemma ascii_eq_iff: "ascii s = ascii t \<longleftrightarrow> s = t"
  unfolding ascii_def by (metis (no_types) inj_map_eq_map inj_of_char)

lemma digits_not_Nil: "digits n \<noteq> []"
  by (subst digits.simps) simp

lemma py_str_number_not_Nil: "is_number_or_null v \<Longrightarrow> py_str repr v \<noteq> []"
  by (cases v) (simp_all add: digits_not_Nil ascii_Cons)

text \<open>
  A value whose type is none of the twelve handled ones (also a missing or non-string
  type) is extracted as the empty string, whatever else the dict holds.
\<close>

lemma extract_unsupported_kind:
  assumes "dict_get prop (ascii ''type'') (JStr []) \<notin>
             JStr ` ascii ` {''title'', ''rich_text'', ''number'', ''select'', ''multi_select'',
               ''date'', ''checkbox'', ''url'', ''email'', ''phone_number'', ''people'',
               ''relation''}"
  shows "extract_property_value repr (JObj prop) = Inr (JStr [])"
  using assms by (simp add: extract_property_value.simps(1))

text \<open>
  C7. The extractor is claimed to return a string for every attribute value and never to
  raise. A people property whose only user has a null name (the remote store gives user
  names as a string or null) makes \<open>", ".join\<close> raise \<open>TypeError\<close>: the extractor does
  not return.
\<close>

theorem extract_people_null_name_raises:
  "extract_property_value sample_repr
     (JObj [(ascii ''id'', JStr (ascii ''p1'')),
            (ascii ''type'', JStr (ascii ''people'')),
            (ascii ''people'',
               JArr [JObj [(ascii ''object'', JStr (ascii ''user'')),
                           (ascii ''id'', JStr (ascii ''u1'')),
                           (ascii ''name'', JNull)]])])
   = Inl TypeError"
  by (simp add: extract_property_value.simps(1) dict_get_def ascii_def join_field_def
      py_join_def as_value_def)

text \<open>
  C8, as stated: a checkbox is rendered as lowercase \<open>true\<close>/\<open>false\<close>. It fails at
  the value true: \<open>str(True)\<close> is \<open>True\<close>.
\<close>

theorem extract_checkbox_true_not_lowercase:
  "extract_property_value sample_repr
     (JObj [(ascii ''type'', JStr (ascii ''checkbox'')), (ascii ''checkbox'', JBool True)])
   \<noteq> Inr (JStr (ascii ''true''))"
  by (simp add: extract_property_value.simps(1) dict_get_def ascii_def)

text \<open>
  C8, amended: for every boolean value of a checkbox property the extractor returns
  Python's rendering of it, \<open>True\<close> when the value is true and \<open>False\<close> when it is false.
\<close>

theorem extract_checkbox_capitalised:
  assumes "map_of prop (ascii ''type'') = Some (JStr (ascii ''checkbox''))"
    and "map_of prop (ascii ''checkbox'') = Some (JBool b)"
  shows "extract_property_value repr (JObj prop) =
           Inr (JStr (if b then ascii ''True'' else ascii ''False''))"
  using assms by (simp add: extract_property_value.simps(1) dict_get_def ascii_eq_iff)

theorem extract_checkbox_capitalised_witness:
  "map_of [(ascii ''type'', JStr (ascii ''checkbox'')), (ascii ''checkbox'', JBool False)]
     (ascii ''type'') = Some (JStr (ascii ''checkbox''))
   \<and> map_of [(ascii ''type'', JStr (ascii ''checkbox'')), (ascii ''checkbox'', JBool False)]
     (ascii ''checkbox'') = Some (JBool False)
   \<and> extract_property_value sample_repr
       (JObj [(ascii ''type'', JStr (ascii ''checkbox'')), (ascii ''checkbox'', JBool False)])
     = Inr (JStr (ascii ''False''))"
  using extract_checkbox_capitalised
    [of "[(ascii ''type'', JStr (ascii ''checkbox'')), (ascii ''checkbox'', JBool False)]"
        False sample_repr]
  by (simp add: ascii_eq_iff)

text \<open>
  C10. For a number property: a raw value that is present but null is extracted as the
  string \<open>None\<close>; a missing raw value is extracted as the empty string; and a raw value
  that is present, null or a number, is never extracted as the empty string.
\<close>

theorem extract_number_null_is_None:
  assumes "map_of prop (ascii ''type'') = Some (JStr (ascii ''number''))"
  shows "(map_of prop (ascii ''number'') = Some JNull \<longrightarrow>
            extract_property_value repr (JObj prop) = Inr (JStr (ascii ''None'')))
       \<and> (map_of prop (ascii ''number'') = None \<longrightarrow>
            extract_property_value repr (JObj prop) = Inr (JStr []))
       \<and> (\<forall>v. map_of prop (ascii ''number'') = Some v \<and> is_number_or_null v \<longrightarrow>
            extract_property_value repr (JObj prop) \<noteq> Inr (JStr []))"
  using assms py_str_number_not_Nil
  by (auto simp: extract_property_value.simps(1) dict_get_def ascii_eq_iff)

theorem extract_number_null_is_None_witness:
  "extract_property_value sample_repr
     (JObj [(ascii ''type'', JStr (ascii ''number'')), (ascii ''number'', JNull)])
     = Inr (JStr (ascii ''None''))
   \<and> extract_property_value sample_repr (JObj [(ascii ''type'', JStr (ascii ''number''))])
     = Inr (JStr [])
   \<and> extract_property_value sample_repr
       (JObj [(ascii ''type'', JStr (ascii ''number'')), (ascii ''number'', JInt 7)])
     \<noteq> Inr (JStr [])"
  using
    extract_number_null_is_None
      [of "[(ascii ''type'', JStr (ascii ''number'')), (ascii ''number'', JNull)]" sample_repr]
    extract_number_null_is_None
      [of "[(ascii ''type'', JStr (ascii ''number''))]" sample_repr]
    extract_number_null_is_None
      [of "[(ascii ''type'', JStr (ascii ''number'')), (ascii ''number'', JInt 7)]" sample_repr]
  by (simp add: ascii_eq_iff)

section \<open>Properties of the pipeline\<close>

subsection \<open>Blank text\<close>

lemma strip_Nil_iff: "strip s = [] \<longleftrightarrow> (\<forall>c\<in>set s. is_space c)"
proof (cases "dropWhile is_space s")
  case Nil
  then show ?thesis by (auto simp: strip_def dest: set_dropWhileD)
next
  case (Cons x xs)
  then have "\<not> is_space x" "x \<in> set s"
    using hd_dropWhile[of is_space s] set_dropWhileD[of x is_space s] by auto
  moreover have "x \<in> set (rev (dropWhile is_space s))" using Cons by simp
  ultimately show ?thesis
    by (auto simp: strip_def)
qed

text \<open>
  C4, amended: for every blank or whitespace-only text, \<open>process\<close> returns the empty
  string normally, raising nothing and making no call to the model.
\<close>

theorem process_blank_returns_empty:
  assumes "\<forall>c\<in>set s. is_space c"
  shows "process w s tr = (Inr [], tr)"
  using assms by (simp add: process_def strip_Nil_iff)

theorem process_blank_returns_empty_witness:
  "is_space 32 \<and> is_space 9 \<and> is_space 12288
   \<and> process quiet_world [32, 9, 12288] [] = (Inr [], [])"
  using process_blank_returns_empty[of "[32, 9, 12288]" quiet_world "[]"]
  by (simp add: is_space_def)

text \<open>
  C4, as stated: on blank text the transformer fails with an error. On three spaces it
  returns the empty string.
\<close>

theorem process_blank_does_not_fail:
  "process quiet_world (ascii ''   '') [] = (Inr [], [])"
  by (simp add: client_defs)

subsection \<open>The loop over the items\<close>

lemma run_items_Cons:
  "run_items w cfg (x # xs) tr =
     (fst (process_single_item w cfg x tr) # fst (run_items w cfg xs (snd (run_items w cfg [x] tr))),
      snd (run_items w cfg xs (snd (run_items w cfg [x] tr))))"
  by (simp add: case_prod_unfold)

lemma run_items_append:
  "run_items w cfg (xs @ ys) tr =
     (fst (run_items w cfg xs tr) @ fst (run_items w cfg ys (snd (run_items w cfg xs tr))),
      snd (run_items w cfg ys (snd (run_items w cfg xs tr))))"
proof (induction xs arbitrary: tr)
  case Nil
  then show ?case by simp
next
  case (Cons x xs)
  show ?case
    by (simp only: append_Cons run_items_Cons[of w cfg x "xs @ ys"] run_items_Cons[of w cfg x xs] Cons fst_conv snd_conv)
qed

lemma length_run_items: "length (fst (run_items w cfg xs tr)) = length xs"
  by (induction xs arbitrary: tr) (simp_all add: case_prod_unfold)

lemma item_process_single_item: "item (fst (process_single_item w cfg x tr)) = x"
  by (simp add: process_single_item_def failure_def Let_def case_prod_unfold split: sum.splits)

lemma item_run_items: "map item (fst (run_items w cfg xs tr)) = xs"
  by (induction xs arbitrary: tr) (simp_all add: case_prod_unfold item_process_single_item)

lemma nth_run_items:
  assumes "k < length xs"
  shows "fst (run_items w cfg xs tr) ! k =
           fst (process_single_item w cfg (xs ! k) (snd (run_items w cfg (take k xs) tr)))"
proof -
  have xs: "xs = take k xs @ (xs ! k) # drop (Suc k) xs"
    using assms by (simp add: id_take_nth_drop)
  have "fst (run_items w cfg xs tr) ! k =
          fst (run_items w cfg (take k xs @ (xs ! k) # drop (Suc k) xs) tr) ! k"
    using xs by simp
  also have "\<dots> = fst (run_items w cfg ((xs ! k) # drop (Suc k) xs) (snd (run_items w cfg (take k xs) tr))) ! 0"
    using assms by (simp add: run_items_append nth_append length_run_items del: run_items.simps)
  also have "\<dots> = fst (process_single_item w cfg (xs ! k) (snd (run_items w cfg (take k xs) tr)))"
    by (simp add: case_prod_unfold)
  finally show ?thesis .
qed

lemma transform_failure_is_failure:
  assumes "fst (process w (build_gemini_input (py_repr w) x) tr) = Inl e"
  shows "\<not> success (fst (process_single_item w cfg x tr))"
  using assms
  by (auto simp add: process_single_item_def failure_def Let_def  split: sum.splits prod.splits)


text \<open>
  C1. When the fetch returns the items \<open>xs\<close> (not empty, no dry run), \<open>run\<close> returns
  one result per item, in fetch order; the result at position \<open>k\<close> is the result of
  processing item \<open>k\<close> on its own, in the state the first \<open>k\<close> items left behind, so
  every item after a failed one is still processed and succeeds exactly when its own
  processing does; and when the transform call for item \<open>k\<close> fails, the result at
  \<open>k\<close> is a failure.
\<close>

theorem run_partial_failure_isolation:
  assumes "get_unprocessed_items w (notion cfg) tr = (Inr xs, tr0)" and "xs \<noteq> []"
  shows "\<exists>results tr'.
           run w cfg False tr = (Inr results, tr')
         \<and> length results = length xs
         \<and> map item results = xs
         \<and> (\<forall>k<length xs.
               results ! k =
                 fst (process_single_item w cfg (xs ! k) (snd (run_items w cfg (take k xs) tr0)))
             \<and> ((\<exists>e. fst (process w (build_gemini_input (py_repr w) (xs ! k))
                             (snd (run_items w cfg (take k xs) tr0))) = Inl e)
                  \<longrightarrow> \<not> success (results ! k)))"
proof -
  let ?rs = "fst (run_items w cfg xs tr0)"
  have "run w cfg False tr = (Inr ?rs, snd (run_items w cfg xs tr0))"
    using assms by (simp add: run_def case_prod_unfold)
  moreover have "length ?rs = length xs"
    by (rule length_run_items)
  moreover have "map item ?rs = xs"
    by (rule item_run_items)
  moreover have "\<forall>k<length xs.
      ?rs ! k = fst (process_single_item w cfg (xs ! k) (snd (run_items w cfg (take k xs) tr0)))
    \<and> ((\<exists>e. fst (process w (build_gemini_input (py_repr w) (xs ! k))
                   (snd (run_items w cfg (take k xs) tr0))) = Inl e)
         \<longrightarrow> \<not> success (?rs ! k))"
    by (auto simp: nth_run_items dest: transform_failure_is_failure)
  ultimately show ?thesis by blast
qed

theorem run_partial_failure_isolation_witness:
  "get_unprocessed_items flaky_world (notion (sample_config [ascii ''Body''])) [] =
     (Inr [sample_item (ascii ''p1'') (ascii ''A'') (ascii ''alpha''),
           sample_item (ascii ''p2'') (ascii ''B'') (ascii ''beta''),
           sample_item (ascii ''p3'') (ascii ''C'') (ascii ''gamma'')],
      [NotionRequest (ascii ''POST'') (ascii ''/databases/db/query'')
         (Some (query_data (notion (sample_config [ascii ''Body'']))))])
   \<and> (\<exists>results tr'.
         run flaky_world (sample_config [ascii ''Body'']) False [] = (Inr results, tr')
       \<and> length results = 3 \<and> \<not> success (results ! 1) \<and> success (results ! 2))"
proof -
  let ?xs = "[sample_item (ascii ''p1'') (ascii ''A'') (ascii ''alpha''),
           sample_item (ascii ''p2'') (ascii ''B'') (ascii ''beta''),
           sample_item (ascii ''p3'') (ascii ''C'') (ascii ''gamma'')]"
  let ?tr0 = "[NotionRequest (ascii ''POST'') (ascii ''/databases/db/query'')
         (Some (query_data (notion (sample_config [ascii ''Body'']))))]"
  let ?cfg = "sample_config [ascii ''Body'']"
  have fetch: "get_unprocessed_items flaky_world (notion ?cfg) [] = (Inr ?xs, ?tr0)"
    by (simp add: client_defs sample_defs)
  have ne: "?xs \<noteq> []" by simp
  obtain results tr' where run: "run flaky_world ?cfg False [] = (Inr results, tr')"
    and len: "length results = length ?xs"
    and each: "\<forall>k<length ?xs.
               results ! k =
                 fst (process_single_item flaky_world ?cfg (?xs ! k) (snd (run_items flaky_world ?cfg (take k ?xs) ?tr0)))
             \<and> ((\<exists>e. fst (process flaky_world (build_gemini_input (py_repr flaky_world) (?xs ! k))
                             (snd (run_items flaky_world ?cfg (take k ?xs) ?tr0))) = Inl e)
                  \<longrightarrow> \<not> success (results ! k))"
    using run_partial_failure_isolation[OF fetch ne] by blast
  have "fst (process flaky_world (build_gemini_input (py_repr flaky_world) (?xs ! 1)) tr) =
          Inl (gemini_call_failed @ ascii ''quota'')" for tr
    by (simp add: client_defs pipeline_defs sample_defs)
  moreover have "(1::nat) < length ?xs" by simp
  ultimately have second: "\<not> success (results ! 1)"
    using each by blast
  have "success (fst (process_single_item flaky_world ?cfg (?xs ! 2) tr))" for tr
    by (simp add: client_defs pipeline_defs sample_defs)
  moreover have "(2::nat) < length ?xs" by simp
  ultimately have third: "success (results ! 2)"
    using each by simp
  from fetch run len second third show ?thesis by simp
qed

text \<open>
  When the query for the unprocessed items meets a transport failure, \<open>run\<close> returns
  the empty list and the query is the only call made, with or without dry run. And once
  the fetch has returned items, no failure of a later call ends the batch early: there is
  one result per item.
\<close>

lemma fetch_failure_ends_run:
  "(transport_failed (notion_api w tr (ascii ''POST'') (query_endpoint (notion cfg))
                        (Some (query_data (notion cfg))))
      \<longrightarrow> run w cfg dry_run tr =
            (Inr [], tr @ [NotionRequest (ascii ''POST'') (query_endpoint (notion cfg))
                             (Some (query_data (notion cfg)))]))
   \<and> (\<forall>xs tr0. get_unprocessed_items w (notion cfg) tr = (Inr xs, tr0) \<and> xs \<noteq> [] \<and> \<not> dry_run
        \<longrightarrow> (\<exists>results tr'. run w cfg dry_run tr = (Inr results, tr')
                           \<and> length results = length xs))"
proof -
  have "run w cfg dry_run tr =
          (Inr [], tr @ [NotionRequest (ascii ''POST'') (query_endpoint (notion cfg))
                           (Some (query_data (notion cfg)))])"
    if "transport_failed (notion_api w tr (ascii ''POST'') (query_endpoint (notion cfg))
                            (Some (query_data (notion cfg))))"
    using that
    by (cases "notion_api w tr (ascii ''POST'') (query_endpoint (notion cfg))
                 (Some (query_data (notion cfg)))")
       (simp_all add: run_def get_unprocessed_items_def make_request_def)
  moreover have "\<exists>results tr'. run w cfg dry_run tr = (Inr results, tr')
                           \<and> length results = length xs"
    if "get_unprocessed_items w (notion cfg) tr = (Inr xs, tr0)" "xs \<noteq> []" "\<not> dry_run"
    for xs tr0
    using that by (simp add: run_def case_prod_unfold length_run_items)
  ultimately show ?thesis by blast
qed

lemma fetch_failure_ends_run_witness:
  "transport_failed (notion_api (sample_world (HTTPError (ascii ''503'')) (Replied (JObj [])) []
                        (Generated (ascii ''summary'')) (Replied (ascii ''ok''))) []
                      (ascii ''POST'') (query_endpoint (notion (sample_config [ascii ''Body''])))
                        (Some (query_data (notion (sample_config [ascii ''Body''])))))
   \<and> run (sample_world (HTTPError (ascii ''503'')) (Replied (JObj [])) []
                        (Generated (ascii ''summary'')) (Replied (ascii ''ok'')))
        (sample_config [ascii ''Body'']) False [] =
       (Inr [], [NotionRequest (ascii ''POST'') (ascii ''/databases/db/query'')
                   (Some (query_data (notion (sample_config [ascii ''Body'']))))])
   \<and> (\<exists>results tr'. run flaky_world (sample_config [ascii ''Body'']) False [] = (Inr results, tr')
                     \<and> length results = 3)"
proof -
  have "get_unprocessed_items flaky_world (notion (sample_config [ascii ''Body''])) [] =
     (Inr [sample_item (ascii ''p1'') (ascii ''A'') (ascii ''alpha''),
           sample_item (ascii ''p2'') (ascii ''B'') (ascii ''beta''),
           sample_item (ascii ''p3'') (ascii ''C'') (ascii ''gamma'')],
      [NotionRequest (ascii ''POST'') (ascii ''/databases/db/query'')
         (Some (query_data (notion (sample_config [ascii ''Body'']))))])"
    by (simp add: client_defs sample_defs)
  then have "\<exists>results tr'. run flaky_world (sample_config [ascii ''Body'']) False [] = (Inr results, tr')
                     \<and> length results = 3"
    using fetch_failure_ends_run [of flaky_world "[]" "sample_config [ascii ''Body'']" False]
    by (auto simp: numeral_3_eq_3)
  then show ?thesis
    using fetch_failure_ends_run
      [of "sample_world (HTTPError (ascii ''503'')) (Replied (JObj [])) []
                          (Generated (ascii ''summary'')) (Replied (ascii ''ok''))" "[]"
          "sample_config [ascii ''Body'']" False]
    by (simp add: sample_world_def sample_config_def query_endpoint_def ascii_def)
qed

text \<open>
  C6. A transport failure of the query is claimed to be the only failure that ends the
  batch early. When the second record of the response has a people property whose user
  has a null name, the query is answered, no call meets a transport failure, and
  \<open>run\<close> ends with the \<open>TypeError\<close> of the extraction right after the query: no item
  is processed, not even the first, well-formed one, and no result list is returned.
\<close>

theorem null_people_name_aborts_run:
  "notion_api null_name_world [] (ascii ''POST'')
     (query_endpoint (notion (sample_config [ascii ''Body'', ascii ''Owner''])))
     (Some (query_data (notion (sample_config [ascii ''Body'', ascii ''Owner'']))))
   = Replied (JObj [(ascii ''results'',
                       JArr [sample_record (ascii ''p1'') (ascii ''A'') (ascii ''alpha''),
                             null_name_record])])
   \<and> run null_name_world (sample_config [ascii ''Body'', ascii ''Owner'']) False [] =
       (Inl TypeError,
        [NotionRequest (ascii ''POST'') (ascii ''/databases/db/query'')
           (Some (query_data (notion (sample_config [ascii ''Body'', ascii ''Owner'']))))])"
  by (simp add: client_defs pipeline_defs sample_defs null_name_world_def null_name_record_def)

subsection \<open>One item\<close>

lemma join_Cons_not_Nil: "p \<noteq> [] \<Longrightarrow> join sep (p # ps) \<noteq> [] \<and> hd (join sep (p # ps)) = hd p"
  by (cases ps) simp_all

lemma strip_not_Nil: "s \<noteq> [] \<Longrightarrow> \<not> is_space (hd s) \<Longrightarrow> strip s \<noteq> []"
  by (auto simp: strip_Nil_iff)

lemma strip_build_gemini_input_not_Nil: "strip (build_gemini_input repr x) \<noteq> []"
proof -
  have "\<not> is_space 35" by (simp add: is_space_def)
  then show ?thesis
    unfolding build_gemini_input_def
    by (intro strip_not_Nil) (simp_all add: join_Cons_not_Nil ascii_def)
qed

text \<open>
  With every content value empty the input is the title heading alone, and the item is
  skipped as empty whenever \<open>strip\<close> leaves that heading unchanged.
\<close>

lemma build_gemini_input_blank:
  assumes "\<forall>v\<in>snd ` set (content x). \<not> truthy v"
  shows "build_gemini_input repr x = ascii ''# '' @ py_str repr (title x)"
proof -
  have "filter (\<lambda>(prop_name, prop_value). truthy prop_value) (content x) = []"
    using assms by (auto simp: filter_empty_conv)
  then show ?thesis by (simp add: build_gemini_input_def)
qed

lemma empty_content_short_circuit:
  assumes "\<forall>v\<in>snd ` set (content x). \<not> truthy v"
    and "strip (ascii ''# '' @ py_str (py_repr w) (title x)) = ascii ''# '' @ py_str (py_repr w) (title x)"
  shows "process_single_item w cfg x tr = (failure x empty_content, tr)"
  using assms by (simp add: process_single_item_def build_gemini_input_blank)

text \<open>
  C2, amended: for every item whose transform step succeeded, whatever the success
  notification returns and whatever the commit returns, the recorded outcome is a
  success carrying the transformed text; an exception raised by the success notification
  is caught at the item boundary and recorded as a failure, the commit not being
  attempted; and the batch goes on to the remaining items.
\<close>

theorem notify_and_commit_best_effort:
  assumes "strip (build_gemini_input (py_repr w) x) \<noteq> ascii ''# '' @ py_str (py_repr w) (title x)"
    and "process w (build_gemini_input (py_repr w) x) tr = (Inr r, tr1)"
    and "r \<noteq> []"
  shows "(\<forall>b tr2 c tr3.
            send_processed_result w (slack cfg) (title x) (original_content (py_repr w) x) r (url x) tr1
              = (Inr b, tr2)
          \<and> mark_as_processed w (notion cfg) (page_id x) tr2 = (c, tr3)
          \<longrightarrow> process_single_item w cfg x tr =
                (\<lparr>item = x, success = True, gemini_result = r, error_message = []\<rparr>, tr3))
       \<and> (\<forall>e tr2.
            send_processed_result w (slack cfg) (title x) (original_content (py_repr w) x) r (url x) tr1
              = (Inl e, tr2)
          \<longrightarrow> process_single_item w cfg x tr = (failure x (unexpected_error @ e), tr2))
       \<and> length (fst (run_items w cfg (x # xs) tr)) = Suc (length xs)"
  using assms strip_build_gemini_input_not_Nil[of "py_repr w" x]
  by (simp add: process_single_item_def length_run_items case_prod_unfold del: run_items.simps)

text \<open>
  C2, as stated: an exception of the success notification leaves the outcome a success.
  With a webhook that answers with a server error the transform succeeds and the
  recorded outcome is a failure.
\<close>

theorem notification_exception_is_failure:
  "fst (process slack_down_world
          (build_gemini_input sample_repr (sample_item (ascii ''p1'') (ascii ''A'') (ascii ''alpha'')))
          []) = Inr (ascii ''summary'')
   \<and> \<not> success (fst (process_single_item slack_down_world (sample_config [ascii ''Body''])
                       (sample_item (ascii ''p1'') (ascii ''A'') (ascii ''alpha'')) []))"
  by (simp add: client_defs pipeline_defs sample_defs slack_down_world_def)

theorem notify_and_commit_best_effort_witness:
  "fst (process_single_item deaf_world (sample_config [ascii ''Body''])
          (sample_item (ascii ''p1'') (ascii ''A'') (ascii ''alpha'')) []) =
     \<lparr>item = sample_item (ascii ''p1'') (ascii ''A'') (ascii ''alpha''), success = True,
      gemini_result = ascii ''summary'', error_message = []\<rparr>
   \<and> fst (process_single_item slack_down_world (sample_config [ascii ''Body''])
          (sample_item (ascii ''p1'') (ascii ''A'') (ascii ''alpha'')) []) =
     failure (sample_item (ascii ''p1'') (ascii ''A'') (ascii ''alpha''))
       (unexpected_error @ slack_send_error @ ascii ''500 Server Error'')"
proof -
  let ?x = "sample_item (ascii ''p1'') (ascii ''A'') (ascii ''alpha'')"
  let ?cfg = "sample_config [ascii ''Body'']"
  let ?input = "build_gemini_input sample_repr ?x"
  have repr: "py_repr deaf_world = sample_repr" "py_repr slack_down_world = sample_repr"
    by (simp_all add: deaf_world_def slack_down_world_def sample_world_def)
  have heading: "strip ?input \<noteq> ascii ''# '' @ py_str sample_repr (title ?x)"
    by (simp add: client_defs pipeline_defs sample_defs)
  have transform:
    "process deaf_world ?input [] = (Inr (ascii ''summary''), [GeminiGenerate ?input])"
    "process slack_down_world ?input [] = (Inr (ascii ''summary''), [GeminiGenerate ?input])"
    by (simp_all add: client_defs pipeline_defs sample_defs deaf_world_def slack_down_world_def)
  have nonempty: "ascii ''summary'' \<noteq> []"
    by (simp add: ascii_def)
  have notify: "fst (send_processed_result deaf_world (slack ?cfg) t orig r u tr) = Inr False" for t orig r u tr
    by (simp add: client_defs sample_defs deaf_world_def Let_def)
  have commit: "fst (mark_as_processed deaf_world (notion ?cfg) p tr) = False" for p tr
    by (simp add: client_defs sample_defs deaf_world_def)
  have raised: "fst (send_processed_result slack_down_world (slack ?cfg) t orig r u tr) =
                  Inl (slack_send_error @ ascii ''500 Server Error'')" for t orig r u tr
    by (simp add: client_defs sample_defs slack_down_world_def Let_def)
  have "fst (process_single_item deaf_world ?cfg ?x []) =
          \<lparr>item = ?x, success = True, gemini_result = ascii ''summary'', error_message = []\<rparr>"
    using notify_and_commit_best_effort
            [of deaf_world ?x "[]" "ascii ''summary''" "[GeminiGenerate ?input]" ?cfg "[]"]
          heading transform(1) nonempty notify commit
    unfolding repr
    by (metis fst_conv prod.collapse)
  moreover have "fst (process_single_item slack_down_world ?cfg ?x []) =
          failure ?x (unexpected_error @ slack_send_error @ ascii ''500 Server Error'')"
    using notify_and_commit_best_effort
            [of slack_down_world ?x "[]" "ascii ''summary''" "[GeminiGenerate ?input]" ?cfg "[]"]
          heading transform(2) nonempty raised
    unfolding repr
    by (metis fst_conv prod.collapse)
  ultimately show ?thesis by simp
qed

text \<open>
  C3. An item whose only content field is blank is claimed to be skipped without a
  transform call. The check compares the stripped input with the unstripped heading, so
  with a title that ends in a space the item is not skipped: the model is called on the
  bare heading and the item is recorded as a success.
\<close>

theorem trailing_space_title_is_transformed:
  "fst (process_single_item quiet_world (sample_config [body_property]) trailing_space_item []) =
     \<lparr>item = trailing_space_item, success = True, gemini_result = ascii ''summary'',
      error_message = []\<rparr>
   \<and> hd (snd (process_single_item quiet_world (sample_config [body_property])
                 trailing_space_item [])) =
     GeminiGenerate (ascii ''# Weekly sync '')"
  by (simp add: client_defs pipeline_defs sample_defs trailing_space_item_def)

section \<open>Properties of the success notification\<close>

text \<open>
  The three truncations as \<open>send_processed_result\<close> computes them: the original content
  is kept up to 300 characters and gets \<open>...\<close> only when longer; the section block
  holds the first 3000 characters of the result; the fallback text holds the first 500
  characters of the result followed by \<open>...\<close>.
\<close>

lemma truncated_original_cap:
  "truncated_original s = (if length s \<le> 300 then s else take 300 s @ ascii ''...'')"
  "length (truncated_original s) \<le> 303"
  by (simp_all add: truncated_original_def ascii_def)

lemma result_section_cap:
  "result_blocks repr t r u ! 2 =
     JObj [(ascii ''type'', JStr (ascii ''section'')), (ascii ''text'', mrkdwn (take 3000 r))]"
  "length r = 5000 \<Longrightarrow> length (take 3000 r) = 3000"
  by (simp_all add: result_blocks_def numeral_2_eq_2)

lemma fallback_text_cap:
  "fallback_text repr t r = [128221, 32] @ py_str repr t @ [10, 10] @ take 500 r @ ascii ''...''"
  "length r = 5000 \<Longrightarrow> length (take 500 r) = 500"
  by (simp_all add: fallback_text_def)

text \<open>The shortened original content is bound and dropped: the call does not depend on it.\<close>

lemma send_processed_result_ignores_original:
  "send_processed_result w cfg t orig r u tr = send_processed_result w cfg t [] r u tr"
  by (simp add: send_processed_result_def Let_def)

text \<open>
  C5. The notification is claimed to display the original text, capped at 300 characters.
  For the original content \<open>Body: the source text\<close> the payload posted to the webhook is
  the fallback text and the header, divider, section and context blocks: the original
  text is in none of them.
\<close>

theorem original_content_not_displayed:
  "snd (send_processed_result quiet_world (slack (sample_config [ascii ''Body'']))
          (JStr (ascii ''Weekly sync'')) (ascii ''Body: the source text'') (ascii ''summary'')
          (JStr []) []) =
     [SlackPost (ascii ''https://hooks.example/x'')
        (JObj [(ascii ''text'',
                  JStr ([128221, 32] @ ascii ''Weekly sync'' @ [10, 10] @ ascii ''summary...'')),
               (ascii ''blocks'',
                  JArr [JObj [(ascii ''type'', JStr (ascii ''header'')),
                              (ascii ''text'',
                                 JObj [(ascii ''type'', JStr (ascii ''plain_text'')),
                                       (ascii ''text'', JStr ([128221, 32] @ ascii ''Weekly sync'')),
                                       (ascii ''emoji'', JBool True)])],
                        JObj [(ascii ''type'', JStr (ascii ''divider''))],
                        JObj [(ascii ''type'', JStr (ascii ''section'')),
                              (ascii ''text'',
                                 JObj [(ascii ''type'', JStr (ascii ''mrkdwn'')),
                                       (ascii ''text'', JStr (ascii ''summary''))])],
                        JObj [(ascii ''type'', JStr (ascii ''context'')),
                              (ascii ''elements'',
                                 JArr [JObj [(ascii ''type'', JStr (ascii ''mrkdwn'')),
                                             (ascii ''text'',
                                                JStr ([129302, 32] @ ascii ''_Gemini API''
                                                  @ [12391, 33258, 21205, 20966, 29702, 12373,
                                                     12428, 12414, 12375, 12383, 95]))]])]])])]"
  by (simp add: client_defs sample_defs result_blocks_def fallback_text_def plain_text_def
      mrkdwn_def Let_def)

section \<open>Properties of the fetch\<close>

text \<open>
  The keys of the content of an item: \<open>collect_content\<close> adds exactly the configured
  names that are keys of the record's properties, and the fallback can only add the body
  property.
\<close>

lemma keys_collect_content:
  "collect_content repr props names acc = Inr c \<Longrightarrow>
     fst ` set c = fst ` set acc \<union> (set names \<inter> fst ` set props)"
proof (induction names arbitrary: acc)
  case Nil
  then show ?case by simp
next
  case (Cons n names)
  show ?case
  proof (cases "map_of props n")
    case None
    then have "n \<notin> fst ` set props" by (simp add: map_of_eq_None_iff)
    with Cons None show ?thesis by auto
  next
    case (Some p)
    then have n: "n \<in> fst ` set props" by (meson domI domIff map_of_eq_None_iff)
    from Cons.prems Some obtain v where
      "collect_content repr props names (AList.update n v acc) = Inr c"
      by (auto split: sum.splits)
    from Cons.IH[OF this] n show ?thesis by (auto simp: dom_update)
  qed
qed

lemma keys_with_page_content:
  assumes "with_page_content w cfg pid c tr = (Inr c', tr')"
  shows "fst ` set c \<subseteq> fst ` set c'"
    and "fst ` set c' \<subseteq> fst ` set c \<union> ({body_property} \<inter> set (content_properties cfg))"
proof -
  define K K' where "K = fst ` set c" and "K' = fst ` set c'"
  from assms have "c' = c \<or> (\<exists>v. c' = AList.update body_property v c
                                 \<and> body_property \<in> set (content_properties cfg))"
    by (auto simp: with_page_content_def split: if_splits prod.splits sum.splits)
  then have "K' = K \<or> (K' = {body_property} \<union> K \<and> body_property \<in> set (content_properties cfg))"
  proof (elim disjE exE conjE)
    assume "c' = c"
    then show ?thesis by (simp add: K_def K'_def)
  next
    fix v
    assume "c' = AList.update body_property v c"
      and "body_property \<in> set (content_properties cfg)"
    then show ?thesis by (simp only: K_def K'_def dom_update simp_thms)
  qed
  then have "K \<subseteq> K'" and "K' \<subseteq> K \<union> ({body_property} \<inter> set (content_properties cfg))"
    by auto
  then show "fst ` set c \<subseteq> fst ` set c'"
    and "fst ` set c' \<subseteq> fst ` set c \<union> ({body_property} \<inter> set (content_properties cfg))"
    unfolding K_def K'_def .
qed

lemma keys_build_item:
  assumes "build_item w cfg result tr = (Inr it, tr')"
  shows "\<exists>fields properties.
           result = JObj fields
         \<and> dict_get fields (ascii ''properties'') (JObj []) = JObj properties
         \<and> set (content_properties cfg) \<inter> fst ` set properties \<subseteq> fst ` set (content it)
         \<and> fst ` set (content it)
             \<subseteq> set (content_properties cfg) \<inter> (fst ` set properties \<union> {body_property})"
proof (cases result)
  case (JObj fields)
  from assms JObj obtain properties t c c' where
    props: "dict_get fields (ascii ''properties'') (JObj []) = JObj properties"
    and c: "collect_content (py_repr w) properties (content_properties cfg) [] = Inr c"
    and c': "with_page_content w cfg (dict_get fields (ascii ''id'') (JStr [])) c tr = (Inr c', tr')"
    and it: "content it = c'"
    by (auto split: json.splits sum.splits prod.splits)
  from keys_collect_content[OF c] keys_with_page_content[OF c'] it
  have "set (content_properties cfg) \<inter> fst ` set properties \<subseteq> fst ` set (content it)"
    and "fst ` set (content it)
             \<subseteq> set (content_properties cfg) \<inter> (fst ` set properties \<union> {body_property})"
    by auto
  with JObj props show ?thesis by blast
qed (use assms in simp_all)

lemma keys_build_items:
  assumes "build_items w cfg results tr = (Inr xs, tr')"
  shows "list_all2
           (\<lambda>it result. \<exists>fields properties.
               result = JObj fields
             \<and> dict_get fields (ascii ''properties'') (JObj []) = JObj properties
             \<and> set (content_properties cfg) \<inter> fst ` set properties \<subseteq> fst ` set (content it)
             \<and> fst ` set (content it)
                 \<subseteq> set (content_properties cfg) \<inter> (fst ` set properties \<union> {body_property}))
           xs results"
  using assms
proof (induction results arbitrary: tr xs)
  case Nil
  then show ?case by simp
next
  case (Cons result results)
  from Cons.prems obtain it tr1 rest where
    it: "build_item w cfg result tr = (Inr it, tr1)"
    and rest: "build_items w cfg results tr1 = (Inr rest, tr')"
    and xs: "xs = it # rest"
    by (auto split: prod.splits sum.splits)
  from keys_build_item[OF it] Cons.IH[OF rest] xs show ?case by simp
qed

text \<open>
  C9, amended: when the fetch returns items, they correspond one to one, in order, to the
  records of the response, and the keys of an item's content are configured content
  fields: every configured field that is a property of the record is a key, and every key
  is a configured field that is a property of the record or is the body property.
\<close>

theorem fetched_content_keys:
  assumes "get_unprocessed_items w cfg tr = (Inr xs, tr')"
  shows "\<exists>response results.
           notion_api w tr (ascii ''POST'') (query_endpoint cfg) (Some (query_data cfg))
             = Replied response
         \<and> response_results response = Inr results
         \<and> list_all2
             (\<lambda>it result. \<exists>fields properties.
                 result = JObj fields
               \<and> dict_get fields (ascii ''properties'') (JObj []) = JObj properties
               \<and> set (content_properties cfg) \<inter> fst ` set properties \<subseteq> fst ` set (content it)
               \<and> fst ` set (content it)
                   \<subseteq> set (content_properties cfg) \<inter> (fst ` set properties \<union> {body_property}))
             xs results"
proof -
  from assms obtain response results where
    "notion_api w tr (ascii ''POST'') (query_endpoint cfg) (Some (query_data cfg)) = Replied response"
    and "response_results response = Inr results"
    and "build_items w cfg results
           (tr @ [NotionRequest (ascii ''POST'') (query_endpoint cfg) (Some (query_data cfg))])
         = (Inr xs, tr')"
    by (auto simp: get_unprocessed_items_def make_request_def split: reply.splits sum.splits)
  with keys_build_items show ?thesis by blast
qed

text \<open>
  C9, as stated: the keys of an item's content are exactly the configured fields. With
  \<open>Body\<close> and \<open>Summary\<close> configured and a record that has no \<open>Summary\<close>, the
  content of the item has the key \<open>Body\<close> only.
\<close>

theorem missing_field_is_not_a_key:
  "fst (get_unprocessed_items one_record_world
          (notion (sample_config [ascii ''Body'', ascii ''Summary''])) []) =
     Inr [sample_item (ascii ''p1'') (ascii ''A'') (ascii ''alpha'')]
   \<and> fst ` set (content (sample_item (ascii ''p1'') (ascii ''A'') (ascii ''alpha'')))
       \<noteq> set (content_properties (notion (sample_config [ascii ''Body'', ascii ''Summary''])))"
  by (simp add: client_defs sample_defs one_record_world_def)


theorem fetched_content_keys_witness:
  "get_unprocessed_items one_record_world
     (notion (sample_config [ascii ''Body'', ascii ''Summary''])) [] =
     (Inr [sample_item (ascii ''p1'') (ascii ''A'') (ascii ''alpha'')],
      [NotionRequest (ascii ''POST'') (ascii ''/databases/db/query'')
         (Some (query_data (notion (sample_config [ascii ''Body'', ascii ''Summary'']))))])
   \<and> (\<exists>response results.
         notion_api one_record_world [] (ascii ''POST'')
           (query_endpoint (notion (sample_config [ascii ''Body'', ascii ''Summary''])))
           (Some (query_data (notion (sample_config [ascii ''Body'', ascii ''Summary'']))))
           = Replied response
       \<and> response_results response = Inr results
       \<and> list_all2
           (\<lambda>it result. \<exists>fields properties.
               result = JObj fields
             \<and> dict_get fields (ascii ''properties'') (JObj []) = JObj properties
             \<and> set [ascii ''Body'', ascii ''Summary''] \<inter> fst ` set properties
                 \<subseteq> fst ` set (content it)
             \<and> fst ` set (content it)
                 \<subseteq> set [ascii ''Body'', ascii ''Summary'']
                    \<inter> (fst ` set properties \<union> {body_property}))
           [sample_item (ascii ''p1'') (ascii ''A'') (ascii ''alpha'')] results)"
proof -
  have fetch:
    "get_unprocessed_items one_record_world
       (notion (sample_config [ascii ''Body'', ascii ''Summary''])) [] =
     (Inr [sample_item (ascii ''p1'') (ascii ''A'') (ascii ''alpha'')],
      [NotionRequest (ascii ''POST'') (ascii ''/databases/db/query'')
         (Some (query_data (notion (sample_config [ascii ''Body'', ascii ''Summary'']))))])"
    by (simp add: client_defs sample_defs one_record_world_def)
  have props: "content_properties (notion (sample_config [ascii ''Body'', ascii ''Summary'']))
                 = [ascii ''Body'', ascii ''Summary'']"
    by (simp add: sample_config_def)
  from fetched_content_keys[OF fetch] fetch show ?thesis
    unfolding props by blast
qed

end
